theory Spec2Isabelle
  imports Complex_Main "HOL-Library.Sublist"
begin

section \<open>JavaScript values as the program sees them\<close>

text \<open>
  Every value the components inspect comes out of \<^verbatim>\<open>JSON.parse\<close> or out of the
  network client, so it is a JSON value. An object is an association list read with
  \<open>map_of\<close>; the result of reading a property is a \<open>json option\<close>, where \<open>None\<close> is
  JavaScript's \<^verbatim>\<open>undefined\<close>. Numbers are only ever tested for being zero or compared
  with a constant, so a rational payload is enough.
\<close>

datatype json =
    JNull
  | JBool bool
  | JNum rat
  | JStr string
  | JArr "json list"
  | JObj "(string \<times> json) list"

text \<open>
  Exceptions are values. \<open>SyntaxError\<close> is what \<^verbatim>\<open>JSON.parse\<close> throws, \<open>TypeError\<close>
  what the engine throws for the \<^verbatim>\<open>in\<close> operator on a non-object and for a property
  read on \<^verbatim>\<open>null\<close>, \<open>Error\<close> what the network client rejects with. All are instances
  of \<^verbatim>\<open>Error\<close> and carry a message; the text of an engine-raised message is
  engine-defined.
\<close>

datatype js_error = SyntaxError string | TypeError string | Error string

fun message :: "js_error \<Rightarrow> string" where
  "message (SyntaxError m) = m"
| "message (TypeError m) = m"
| "message (Error m) = m"

text \<open>Truthiness (\<^verbatim>\<open>ToBoolean\<close>) of a value that may be \<^verbatim>\<open>undefined\<close>.\<close>

fun truthy :: "json option \<Rightarrow> bool" where
  "truthy None = False"
| "truthy (Some JNull) = False"
| "truthy (Some (JBool b)) = b"
| "truthy (Some (JNum n)) = (n \<noteq> 0)"
| "truthy (Some (JStr s)) = (s \<noteq> [])"
| "truthy (Some (JArr xs)) = True"
| "truthy (Some (JObj kvs)) = True"

text \<open>\<^verbatim>\<open>Array.isArray\<close>.\<close>

fun isArray :: "json \<Rightarrow> bool" where
  "isArray (JArr xs) = True"
| "isArray v = False"

text \<open>\<^verbatim>\<open>typeof v === 'object'\<close>: true of objects, arrays and \<^verbatim>\<open>null\<close>.\<close>

fun typeof_object :: "json \<Rightarrow> bool" where
  "typeof_object (JObj kvs) = True"
| "typeof_object (JArr xs) = True"
| "typeof_object JNull = True"
| "typeof_object v = False"

text \<open>
  Reading a property of a value that is neither \<^verbatim>\<open>null\<close> nor \<^verbatim>\<open>undefined\<close>. The
  program reads the names \<^verbatim>\<open>entries\<close>, \<^verbatim>\<open>history\<close>, \<^verbatim>\<open>action\<close>, \<^verbatim>\<open>observation\<close>,
  \<^verbatim>\<open>content\<close>, \<^verbatim>\<open>fileType\<close>, \<^verbatim>\<open>jsonlContent\<close>, \<^verbatim>\<open>trajectoryData\<close>, \<^verbatim>\<open>metrics\<close>,
  \<^verbatim>\<open>issue\<close>, \<^verbatim>\<open>jsonlHistory\<close> and \<^verbatim>\<open>length\<close>. Of these only \<^verbatim>\<open>length\<close> exists on
  arrays and strings, and \<^verbatim>\<open>entries\<close> is inherited by arrays (a method, never read from
  an array by this program: the classifier returns every array before it reads
  \<^verbatim>\<open>entries\<close>).
\<close>

fun get_prop :: "json \<Rightarrow> string \<Rightarrow> json option" where
  "get_prop (JObj kvs) k = map_of kvs k"
| "get_prop (JArr xs) k = (if k = ''length'' then Some (JNum (of_nat (length xs))) else None)"
| "get_prop (JStr s) k = (if k = ''length'' then Some (JNum (of_nat (length s))) else None)"
| "get_prop v k = None"

text \<open>The plain member access \<^verbatim>\<open>v.k\<close> throws on \<^verbatim>\<open>null\<close>.\<close>

fun js_get :: "json \<Rightarrow> string \<Rightarrow> js_error + json option" where
  "js_get JNull k = Inl (TypeError (''Cannot read properties of null (reading '' @ k @ '')''))"
| "js_get v k = Inr (get_prop v k)"

text \<open>The optional chain \<^verbatim>\<open>v?.k\<close> gives \<^verbatim>\<open>undefined\<close> on \<^verbatim>\<open>null\<close> and \<^verbatim>\<open>undefined\<close>.\<close>

fun opt_get :: "json option \<Rightarrow> string \<Rightarrow> json option" where
  "opt_get None k = None"
| "opt_get (Some JNull) k = None"
| "opt_get (Some v) k = get_prop v k"

text \<open>
  The operator \<^verbatim>\<open>k in v\<close> for the names the program tests (\<^verbatim>\<open>action\<close>, \<^verbatim>\<open>source\<close>,
  \<^verbatim>\<open>observation\<close>, \<^verbatim>\<open>jsonlContent\<close>: none of them is an array index or an inherited
  member). It throws when the right operand is not an object.
\<close>

fun has_in :: "string \<Rightarrow> json \<Rightarrow> js_error + bool" where
  "has_in k (JObj kvs) = Inr (k \<in> set (map fst kvs))"
| "has_in k (JArr xs) = Inr False"
| "has_in k v = Inl (TypeError (''Cannot use in operator to search for '' @ k))"

text \<open>The values on which \<^verbatim>\<open>in\<close> does not throw: objects and arrays.\<close>

fun is_object :: "json \<Rightarrow> bool" where
  "is_object (JObj kvs) = True"
| "is_object (JArr xs) = True"
| "is_object v = False"

section \<open>The uploader: \<^verbatim>\<open>UploadTrajectory\<close>\<close>

subsection \<open>\<^verbatim>\<open>processOpenHandsTrajectory\<close>\<close>

text \<open>\<^verbatim>\<open>(a in v && b in v)\<close>, left to right with short circuit.\<close>

definition both_in :: "string \<Rightarrow> string \<Rightarrow> json \<Rightarrow> js_error + bool" where
  "both_in a b v =
     (case has_in a v of
        Inl e \<Rightarrow> Inl e
      | Inr False \<Rightarrow> Inr False
      | Inr True \<Rightarrow> has_in b v)"

definition processOpenHandsTrajectory :: "json \<Rightarrow> js_error + json" where
  "processOpenHandsTrajectory content =
     (if isArray content then
        (case content of
           JArr (first # rest) \<Rightarrow>
             (case both_in ''action'' ''source'' first of
                Inl e \<Rightarrow> Inl e
              | Inr True \<Rightarrow> Inr content
              | Inr False \<Rightarrow>
                  (case both_in ''observation'' ''source'' first of
                     Inl e \<Rightarrow> Inl e
                   | Inr True \<Rightarrow> Inr content
                   | Inr False \<Rightarrow> Inr content))
         | _ \<Rightarrow> Inr content)
      else
        (case js_get content ''entries'' of
           Inl e \<Rightarrow> Inl e
         | Inr entries \<Rightarrow>
             if truthy entries \<and> (case entries of Some a \<Rightarrow> isArray a | None \<Rightarrow> False)
             then Inr content
             else
               (case js_get content ''history'' of
                  Inl e \<Rightarrow> Inl e
                | Inr history \<Rightarrow>
                    (case history of
                       Some h \<Rightarrow> if truthy history \<and> isArray h then Inr h else Inr content
                     | None \<Rightarrow> Inr content))))"

subsection \<open>\<^verbatim>\<open>onDrop\<close> and the callbacks it installs\<close>

text \<open>
  A dropped file: its name, its size and what \<^verbatim>\<open>FileReader.readAsText\<close> will report
  for it, either the text or a read error whose message may be missing.
\<close>

datatype read_result = ReadText string | ReadError "string option"

record dropped_file =
  file_name :: string
  file_size :: nat
  file_read :: read_result

text \<open>
  What the component does to the outside: the two callbacks of its props and
  \<^verbatim>\<open>window.alert\<close>. The argument of \<^verbatim>\<open>onUpload\<close> is the object literal the source
  builds.
\<close>

datatype effect = OnUploadStart | OnUpload json | Alert string

text \<open>
  The component state (\<^verbatim>\<open>isProcessing\<close>, \<^verbatim>\<open>error\<close>), the effects so far, the file
  readers started and not yet finished, and the pending \<^verbatim>\<open>setTimeout\<close> callbacks, each
  with its delay and the \<^verbatim>\<open>processedTrajectory\<close> it closes over.
\<close>

record upload_state =
  isProcessing :: bool
  error :: "string option"
  effects :: "effect list"
  readers :: "dropped_file list"
  timers :: "(nat \<times> json) list"

definition initial_upload_state :: upload_state where
  "initial_upload_state =
     \<lparr>isProcessing = False, error = None, effects = [], readers = [], timers = []\<rparr>"

definition trajectory_upload :: "json \<Rightarrow> json" where
  "trajectory_upload processedTrajectory =
     JObj [(''content'',
            JObj [(''trajectoryData'', processedTrajectory),
                  (''fileType'', JStr ''trajectory'')])]"

text \<open>
  The synchronous part of \<^verbatim>\<open>onDrop\<close>. The flag \<open>onUploadStart\<close> says whether the host
  passed the optional callback.
\<close>

definition onDrop :: "bool \<Rightarrow> dropped_file list \<Rightarrow> upload_state \<Rightarrow> upload_state" where
  "onDrop onUploadStart acceptedFiles s =
     (case acceptedFiles of
        [] \<Rightarrow> s
      | f # others \<Rightarrow>
          (let s1 = s\<lparr>isProcessing := True, error := None\<rparr>;
               s2 = (if onUploadStart then s1\<lparr>effects := effects s1 @ [OnUploadStart]\<rparr> else s1)
           in s2\<lparr>readers := readers s2 @ [f]\<rparr>))"

text \<open>
  The logging at the head of the \<^verbatim>\<open>try\<close> block writes to the console only, but its
  argument \<^verbatim>\<open>Object.keys(content)\<close> throws on \<^verbatim>\<open>null\<close>.
\<close>

definition log_parsed :: "json \<Rightarrow> js_error + unit" where
  "log_parsed content =
     (if isArray content then Inr ()
      else if content = JNull
      then Inl (TypeError ''Cannot convert undefined or null to object'')
      else Inr ())"

text \<open>The three-way delivery after classification.\<close>

definition deliver :: "json \<Rightarrow> upload_state \<Rightarrow> upload_state" where
  "deliver processedTrajectory s =
     (if truthy (Some processedTrajectory) \<and> typeof_object processedTrajectory
         \<and> has_in ''jsonlContent'' processedTrajectory = Inr True
      then s\<lparr>effects := effects s @ [OnUpload (JObj [(''content'', processedTrajectory)])],
             isProcessing := False\<rparr>
      else if isArray processedTrajectory
              \<and> (case processedTrajectory of JArr xs \<Rightarrow> length xs > 500 | _ \<Rightarrow> False)
      then s\<lparr>timers := timers s @ [(100, processedTrajectory)]\<rparr>
      else s\<lparr>effects := effects s @ [OnUpload (trajectory_upload processedTrajectory)],
             isProcessing := False\<rparr>)"

text \<open>The body of the \<^verbatim>\<open>try\<close> block: \<open>Inl\<close> is the exception that leaves it.\<close>

definition onload_try ::
  "(string \<Rightarrow> js_error + json) \<Rightarrow> string \<Rightarrow> upload_state \<Rightarrow> js_error + upload_state" where
  "onload_try JSON_parse result s =
     (case JSON_parse result of
        Inl e \<Rightarrow> Inl e
      | Inr content \<Rightarrow>
          (case log_parsed content of
             Inl e \<Rightarrow> Inl e
           | Inr u \<Rightarrow>
               (case processOpenHandsTrajectory content of
                  Inl e \<Rightarrow> Inl e
                | Inr processedTrajectory \<Rightarrow> Inr (deliver processedTrajectory s))))"

definition parse_alert :: string where
  "parse_alert =
     ''Failed to parse the trajectory file. Please make sure it is a valid JSON file.''"

definition parse_error_text :: "js_error \<Rightarrow> string" where
  "parse_error_text e =
     ''Failed to parse the trajectory file: '' @ message e
       @ ''. Please make sure it is a valid JSON file.''"

text \<open>\<^verbatim>\<open>reader.onload\<close>: the \<^verbatim>\<open>try\<close> block and its \<^verbatim>\<open>catch\<close>.\<close>

definition reader_onload ::
  "(string \<Rightarrow> js_error + json) \<Rightarrow> string \<Rightarrow> upload_state \<Rightarrow> upload_state" where
  "reader_onload JSON_parse result s =
     (case onload_try JSON_parse result s of
        Inr s' \<Rightarrow> s'
      | Inl e \<Rightarrow>
          s\<lparr>error := Some (parse_error_text e),
            effects := effects s @ [Alert parse_alert],
            isProcessing := False\<rparr>)"

text \<open>\<^verbatim>\<open>reader.onerror\<close>; an empty or missing message reads \<^verbatim>\<open>Unknown error\<close>.\<close>

definition reader_onerror :: "string option \<Rightarrow> upload_state \<Rightarrow> upload_state" where
  "reader_onerror msg s =
     s\<lparr>error := Some (''Error reading file: ''
                      @ (case msg of
                           Some m \<Rightarrow> if m \<noteq> [] then m else ''Unknown error''
                         | None \<Rightarrow> ''Unknown error'')),
       isProcessing := False\<rparr>"

text \<open>The oldest started reader finishes and runs the callback that applies.\<close>

definition reader_done ::
  "(string \<Rightarrow> js_error + json) \<Rightarrow> upload_state \<Rightarrow> upload_state" where
  "reader_done JSON_parse s =
     (case readers s of
        [] \<Rightarrow> s
      | f # fs \<Rightarrow>
          (case file_read f of
             ReadText result \<Rightarrow> reader_onload JSON_parse result (s\<lparr>readers := fs\<rparr>)
           | ReadError msg \<Rightarrow> reader_onerror msg (s\<lparr>readers := fs\<rparr>)))"


text \<open>
  A stand-in for \<^verbatim>\<open>JSON.parse\<close> in the examples below, right on the texts it lists:
  \<^verbatim>\<open>null\<close>, \<^verbatim>\<open>[1]\<close>, \<^verbatim>\<open>{}\<close> and \<^verbatim>\<open>not json\<close>, for which it gives the message
  of V8 up to version 10.
\<close>

definition sample_parse :: "string \<Rightarrow> js_error + json" where
  "sample_parse t =
     (if t = ''null'' then Inr JNull
      else if t = ''[1]'' then Inr (JArr [JNum 1])
      else if t = ''{}'' then Inr (JObj [])
      else Inl (SyntaxError ''Unexpected token o in JSON at position 1''))"

text \<open>Whether the host's upload callback has been invoked.\<close>

fun is_upload :: "effect \<Rightarrow> bool" where
  "is_upload (OnUpload c) = True"
| "is_upload e = False"

section \<open>The list view: \<^verbatim>\<open>TrajectoryList\<close>\<close>

text \<open>\<^verbatim>\<open>typeof v === "string"\<close> of a value that may be \<^verbatim>\<open>undefined\<close>.\<close>

fun typeof_string :: "json option \<Rightarrow> bool" where
  "typeof_string (Some (JStr s)) = True"
| "typeof_string v = False"

text \<open>
  The pre-filter. Its parameter is typed \<^verbatim>\<open>TrajectoryItem\<close>, an object; the \<^verbatim>\<open>in\<close>
  operator throws on anything that is not one.
\<close>

definition shouldDisplayItem :: "json \<Rightarrow> js_error + bool" where
  "shouldDisplayItem item =
     (case has_in ''action'' item of
        Inl e \<Rightarrow> Inl e
      | Inr a \<Rightarrow>
          if a \<and> get_prop item ''action'' = Some (JStr ''change_agent_state'') then Inr False
          else
            (case has_in ''observation'' item of
               Inl e \<Rightarrow> Inl e
             | Inr b \<Rightarrow>
                 if b \<and> typeof_string (get_prop item ''observation'')
                      \<and> get_prop item ''observation'' = Some (JStr ''null'')
                 then Inr False
                 else Inr True))"

text \<open>\<^verbatim>\<open>trajectory.filter(shouldDisplayItem)\<close>; an exception of the callback leaves it.\<close>

fun filter_items :: "json list \<Rightarrow> js_error + json list" where
  "filter_items [] = Inr []"
| "filter_items (item # items) =
     (case shouldDisplayItem item of
        Inl e \<Rightarrow> Inl e
      | Inr keep \<Rightarrow>
          (case filter_items items of
             Inl e \<Rightarrow> Inl e
           | Inr kept \<Rightarrow> Inr (if keep then item # kept else kept)))"

text \<open>
  The thirteen type guards are imported from \<^verbatim>\<open>utils/share\<close>, which is not among the
  source files; the dispatcher takes them as a parameter.
\<close>

record item_guards =
  isAgentStateChange :: "json \<Rightarrow> bool"
  isUserMessage :: "json \<Rightarrow> bool"
  isAssistantMessage :: "json \<Rightarrow> bool"
  isCommandAction :: "json \<Rightarrow> bool"
  isCommandObservation :: "json \<Rightarrow> bool"
  isIPythonAction :: "json \<Rightarrow> bool"
  isIPythonObservation :: "json \<Rightarrow> bool"
  isFinishAction :: "json \<Rightarrow> bool"
  isErrorObservation :: "json \<Rightarrow> bool"
  isReadAction :: "json \<Rightarrow> bool"
  isReadObservation :: "json \<Rightarrow> bool"
  isEditAction :: "json \<Rightarrow> bool"
  isEditObservation :: "json \<Rightarrow> bool"

text \<open>The component each item is handed to; \<open>TrajectoryCard\<close> is the raw JSON fallback.\<close>

datatype renderer =
    AgentStateChangeComponent
  | UserMessageComponent
  | AssistantMessageComponent
  | CommandActionComponent
  | CommandObservationComponent
  | IPythonActionComponent
  | IPythonObservationComponent
  | FinishActionComponent
  | ErrorObservationComponent
  | ReadActionComponent
  | ReadObservationComponent
  | EditActionComponent
  | EditObservationComponent
  | TrajectoryCard

text \<open>The \<^verbatim>\<open>if\<close>/\<^verbatim>\<open>else if\<close> chain in the callback of \<^verbatim>\<open>filteredTrajectory.map\<close>.\<close>

definition selectRenderer :: "item_guards \<Rightarrow> json \<Rightarrow> renderer" where
  "selectRenderer g item =
     (if isAgentStateChange g item then AgentStateChangeComponent
      else if isUserMessage g item then UserMessageComponent
      else if isAssistantMessage g item then AssistantMessageComponent
      else if isCommandAction g item then CommandActionComponent
      else if isCommandObservation g item then CommandObservationComponent
      else if isIPythonAction g item then IPythonActionComponent
      else if isIPythonObservation g item then IPythonObservationComponent
      else if isFinishAction g item then FinishActionComponent
      else if isErrorObservation g item then ErrorObservationComponent
      else if isReadAction g item then ReadActionComponent
      else if isReadObservation g item then ReadObservationComponent
      else if isEditAction g item then EditActionComponent
      else if isEditObservation g item then EditObservationComponent
      else TrajectoryCard)"

text \<open>
  One rendered list entry: the component, its \<^verbatim>\<open>key\<close> (the index in the filtered
  list; the fallback card is titled with \<open>key + 1\<close>) and the item passed to it.
\<close>

record list_entry =
  component :: renderer
  entry_key :: nat
  entry_item :: json

text \<open>
  What the view shows: the count in the header ``Trajectory Items (N items)'', the
  entries, and whether the line ``No trajectory items to display.'' is there.
\<close>

record trajectory_view =
  items_label :: nat
  entries :: "list_entry list"
  empty_line :: bool

definition TrajectoryList :: "item_guards \<Rightarrow> json list \<Rightarrow> js_error + trajectory_view" where
  "TrajectoryList g trajectory =
     (case filter_items trajectory of
        Inl e \<Rightarrow> Inl e
      | Inr filteredTrajectory \<Rightarrow>
          Inr \<lparr>items_label = length filteredTrajectory,
               entries =
                 map (\<lambda>(item, index).
                        \<lparr>component = selectRenderer g item, entry_key = index, entry_item = item\<rparr>)
                     (zip filteredTrajectory [0..<length filteredTrajectory]),
               empty_line = (length filteredTrajectory = 0)\<rparr>)"

text \<open>
  Modelled from the spec: the thirteen type guards of \<^verbatim>\<open>utils/share\<close>, whose source is
  missing, each as the dispatcher section words it (``has \<^verbatim>\<open>action === "run"\<close>'' and so
  on). They serve as a concrete instance of the parameter.
\<close>

definition field_is :: "string \<Rightarrow> string \<Rightarrow> json \<Rightarrow> bool" where
  "field_is k v item = (get_prop item k = Some (JStr v))"

definition spec_guards :: item_guards where
  "spec_guards =
     \<lparr>isAgentStateChange = field_is ''action'' ''change_agent_state'',
      isUserMessage = field_is ''role'' ''user'',
      isAssistantMessage = field_is ''role'' ''assistant'',
      isCommandAction = field_is ''action'' ''run'',
      isCommandObservation = field_is ''observation'' ''run'',
      isIPythonAction = field_is ''action'' ''run_ipython'',
      isIPythonObservation = field_is ''observation'' ''run_ipython'',
      isFinishAction = field_is ''action'' ''finish'',
      isErrorObservation = field_is ''observation'' ''error'',
      isReadAction = field_is ''action'' ''read'',
      isReadObservation = field_is ''observation'' ''read'',
      isEditAction = field_is ''action'' ''edit'',
      isEditObservation = field_is ''observation'' ''edit''\<rparr>"

section \<open>The run view: \<^verbatim>\<open>RunDetails\<close>\<close>

text \<open>
  The props. \<^verbatim>\<open>run\<close> is the workflow run object (read for \<^verbatim>\<open>id\<close> and
  \<^verbatim>\<open>conclusion\<close>); \<^verbatim>\<open>initialContent\<close> is optional.
\<close>

record run_props =
  owner :: string
  repo :: string
  run :: json
  initialContent :: "json option"

text \<open>
  The network client: each operation resolves with a JSON value or rejects with an
  error. The calls made are recorded in the state.
\<close>

record api =
  getRunDetails :: "string \<Rightarrow> string \<Rightarrow> json option \<Rightarrow> js_error + json"
  getArtifactContent :: "string \<Rightarrow> string \<Rightarrow> json option \<Rightarrow> js_error + json"

datatype api_call =
    GetRunDetails string string "json option"
  | GetArtifactContent string string "json option"

text \<open>The six state variables of the component (\<open>JNull\<close> is \<^verbatim>\<open>null\<close>) and the calls so far.\<close>

record run_state =
  runDetails :: json
  artifactContent :: json
  loading :: bool
  contentLoading :: bool
  processingArtifact :: bool
  load_error :: "string option"
  api_calls :: "api_call list"

definition initial_run_state :: run_state where
  "initial_run_state =
     \<lparr>runDetails = JNull, artifactContent = JNull, loading = True, contentLoading = False,
      processingArtifact = False, load_error = None, api_calls = []\<rparr>"

text \<open>
  The comparison \<^verbatim>\<open>v > n\<close> with a number on the right: \<^verbatim>\<open>undefined\<close> converts to NaN
  and compares false, a number compares as it is, and any other value goes through the
  engine's \<^verbatim>\<open>ToNumber\<close>, a parameter (\<open>None\<close> for NaN).
\<close>

definition exceeds :: "(json \<Rightarrow> rat option) \<Rightarrow> json option \<Rightarrow> rat \<Rightarrow> bool" where
  "exceeds ToNumber v n =
     (case v of
        None \<Rightarrow> False
      | Some (JNum m) \<Rightarrow> m > n
      | Some x \<Rightarrow> (case ToNumber x of None \<Rightarrow> False | Some m \<Rightarrow> m > n))"

text \<open>The element read \<^verbatim>\<open>v[0]\<close> of a value that is not \<^verbatim>\<open>null\<close> or \<^verbatim>\<open>undefined\<close>.\<close>

fun index0 :: "json \<Rightarrow> json option" where
  "index0 (JArr (x # xs)) = Some x"
| "index0 (JStr (c # cs)) = Some (JStr [c])"
| "index0 (JObj kvs) = map_of kvs ''0''"
| "index0 v = None"

text \<open>
  \<^verbatim>\<open>handleArtifactSelect\<close>, run to its end. For a large artifact the source sets
  \<^verbatim>\<open>processingArtifact\<close> and waits half a second before it goes on; the \<^verbatim>\<open>finally\<close> block
  resets both flags.
\<close>

definition handleArtifactSelect ::
  "(json \<Rightarrow> rat option) \<Rightarrow> api \<Rightarrow> string \<Rightarrow> string \<Rightarrow> json option \<Rightarrow> run_state \<Rightarrow> run_state" where
  "handleArtifactSelect ToNumber client ownr rpo artifact s =
     (case artifact of
        None \<Rightarrow> s
      | Some a \<Rightarrow>
          if \<not> truthy artifact then s
          else
            (let s1 = s\<lparr>contentLoading := True\<rparr>;
                 s2 = s1\<lparr>api_calls :=
                          api_calls s1 @ [GetArtifactContent ownr rpo (get_prop a ''id'')]\<rparr>;
                 s4 = (case getArtifactContent client ownr rpo (get_prop a ''id'') of
                         Inl e \<Rightarrow> s2\<lparr>artifactContent := JNull\<rparr>
                       | Inr content \<Rightarrow>
                           (let c = opt_get (Some content) ''content'';
                                s3 = (if exceeds ToNumber
                                           (opt_get (opt_get c ''history'') ''length'') 50
                                         \<or> exceeds ToNumber
                                             (opt_get (opt_get c ''jsonlHistory'') ''length'') 50
                                      then s2\<lparr>processingArtifact := True\<rparr>
                                      else s2)
                            in s3\<lparr>artifactContent := content\<rparr>))
             in s4\<lparr>contentLoading := False, processingArtifact := False\<rparr>))"

definition uploaded_run_details :: "json \<Rightarrow> json" where
  "uploaded_run_details r =
     JObj [(''run'', r),
           (''jobs'', JObj [(''total_count'', JNum 0), (''jobs'', JArr [])]),
           (''artifacts'', JObj [(''total_count'', JNum 0), (''artifacts'', JArr [])])]"

text \<open>
  The \<^verbatim>\<open>try\<close> block of \<^verbatim>\<open>fetchRunDetails\<close> after its first two setters: the state it
  reaches and the exception that left it, if any.
\<close>

definition fetch_try ::
  "(json \<Rightarrow> rat option) \<Rightarrow> api \<Rightarrow> run_props \<Rightarrow> run_state \<Rightarrow> js_error option \<times> run_state" where
  "fetch_try ToNumber client p s1 =
     (if truthy (initialContent p) then
        (case initialContent p of
           Some ic \<Rightarrow>
             (None, s1\<lparr>runDetails := uploaded_run_details (run p), artifactContent := ic\<rparr>)
         | None \<Rightarrow> (None, s1))
      else
        (let run_id = get_prop (run p) ''id'';
             s2 = s1\<lparr>api_calls := api_calls s1 @ [GetRunDetails (owner p) (repo p) run_id]\<rparr>
         in case getRunDetails client (owner p) (repo p) run_id of
              Inl e \<Rightarrow> (Some e, s2)
            | Inr details \<Rightarrow>
                (let s3 = s2\<lparr>runDetails := details, artifactContent := JNull\<rparr>
                 in case js_get details ''artifacts'' of
                      Inl e \<Rightarrow> (Some e, s3)
                    | Inr page \<Rightarrow>
                        (let list = opt_get page ''artifacts''
                         in if opt_get list ''length'' = Some (JNum 1)
                               \<and> get_prop (run p) ''conclusion'' = Some (JStr ''success'')
                            then (None,
                                  handleArtifactSelect ToNumber client (owner p) (repo p)
                                    (case list of Some l \<Rightarrow> index0 l | None \<Rightarrow> None) s3)
                            else (None, s3)))))"

text \<open>
  \<^verbatim>\<open>fetchRunDetails\<close>, run to its end. The \<^verbatim>\<open>finally\<close> block reads the
  \<^verbatim>\<open>processingArtifact\<close> of the render that created the effect, that is of \<open>s\<close>.
\<close>

definition fetchRunDetails ::
  "(json \<Rightarrow> rat option) \<Rightarrow> api \<Rightarrow> run_props \<Rightarrow> run_state \<Rightarrow> run_state" where
  "fetchRunDetails ToNumber client p s =
     (if owner p = [] \<or> repo p = [] \<or> \<not> truthy (Some (run p)) then s
      else
        (let s1 = s\<lparr>loading := True, processingArtifact := False\<rparr>;
             s5 = (case fetch_try ToNumber client p s1 of
                     (None, s4) \<Rightarrow> s4\<lparr>load_error := None\<rparr>
                   | (Some e, s4) \<Rightarrow>
                       s4\<lparr>load_error := Some ''Failed to load run details. Please try again.''\<rparr>)
         in if \<not> processingArtifact s then s5\<lparr>loading := False\<rparr> else s5))"

subsection \<open>Rendering\<close>

text \<open>
  The generic detail view: whether the ``Artifact Data'' section is there, the two raw
  dumps (each with the \<^verbatim>\<open>length\<close> its heading shows and the value dumped), and whether
  the line ``No artifact content available.'' is there.
\<close>

record generic_view =
  artifact_details :: bool
  history_dump :: "(json option \<times> json) option"
  jsonl_history_dump :: "(json option \<times> json) option"
  no_content_line :: bool

definition raw_dump :: "json option \<Rightarrow> (json option \<times> json) option" where
  "raw_dump field =
     (case field of
        Some v \<Rightarrow> if truthy field then Some (get_prop v ''length'', v) else None
      | None \<Rightarrow> None)"

text \<open>The argument is \<^verbatim>\<open>artifactContent?.content\<close>.\<close>

definition generic_details :: "json option \<Rightarrow> generic_view" where
  "generic_details content =
     \<lparr>artifact_details =
        (truthy content
         \<and> (truthy (opt_get content ''metrics'')
            \<or> (truthy content \<and> \<not> truthy (opt_get content ''issue'')))),
      history_dump = raw_dump (opt_get content ''history''),
      jsonl_history_dump = raw_dump (opt_get content ''jsonlHistory''),
      no_content_line = (\<not> truthy content)\<rparr>"

datatype screen =
    Skeleton
  | ErrorBanner string
  | JsonlViewer json
  | TrajectoryScreen trajectory_view
  | GenericScreen generic_view

text \<open>
  What the component returns for a state. Two calls in it can throw:
  \<^verbatim>\<open>jsonlContent.substring\<close> when the content is not a string, and \<^verbatim>\<open>trajectory.filter\<close>
  inside \<^verbatim>\<open>TrajectoryList\<close> when the data is not an array.
\<close>

definition RunDetails :: "item_guards \<Rightarrow> run_state \<Rightarrow> js_error + screen" where
  "RunDetails g s =
     (if loading s \<or> contentLoading s \<or> processingArtifact s then Inr Skeleton
      else if (case load_error s of Some m \<Rightarrow> m \<noteq> [] | None \<Rightarrow> False)
              \<or> \<not> truthy (Some (runDetails s))
      then Inr (ErrorBanner (case load_error s of
                               Some m \<Rightarrow> if m \<noteq> [] then m else ''Failed to load run details''
                             | None \<Rightarrow> ''Failed to load run details''))
      else
        (let content = opt_get (Some (artifactContent s)) ''content''
         in if opt_get content ''fileType'' = Some (JStr ''jsonl'')
               \<and> truthy (opt_get content ''jsonlContent'')
            then (case opt_get content ''jsonlContent'' of
                    Some (JStr text) \<Rightarrow> Inr (JsonlViewer (JStr text))
                  | _ \<Rightarrow> Inl (TypeError ''jsonlContent.substring is not a function''))
            else if opt_get content ''fileType'' = Some (JStr ''trajectory'')
                    \<and> truthy (opt_get content ''trajectoryData'')
            then (case opt_get content ''trajectoryData'' of
                    Some (JArr trajectory) \<Rightarrow>
                      (case TrajectoryList g trajectory of
                         Inl e \<Rightarrow> Inl e
                       | Inr v \<Rightarrow> Inr (TrajectoryScreen v))
                  | _ \<Rightarrow> Inl (TypeError ''trajectory.filter is not a function''))
            else Inr (GenericScreen (generic_details content))))"

section \<open>Properties of the classifier\<close>



text \<open>An object with an \<^verbatim>\<open>entries\<close> array comes back whole.\<close>

lemma classifier_entries_whole:
  assumes "map_of kvs ''entries'' = Some (JArr es)"
  shows "processOpenHandsTrajectory (JObj kvs) = Inr (JObj kvs)"
  using assms by (simp add: processOpenHandsTrajectory_def)

text \<open>An object with a \<^verbatim>\<open>history\<close> array and no \<^verbatim>\<open>entries\<close> array gives the history.\<close>

lemma classifier_history_unwrap:
  assumes "\<forall>es. map_of kvs ''entries'' \<noteq> Some (JArr es)"
    and "map_of kvs ''history'' = Some (JArr h)"
  shows "processOpenHandsTrajectory (JObj kvs) = Inr (JArr h)"
proof -
  have e: "\<not> (case map_of kvs ''entries'' of Some a \<Rightarrow> isArray a | None \<Rightarrow> False)"
    using assms(1) by (auto split: option.splits elim: isArray.elims)
  show ?thesis using e assms(2) by (simp add: processOpenHandsTrajectory_def)
qed

text \<open>
  Every value other than \<^verbatim>\<open>null\<close> that is not an array and has neither an \<^verbatim>\<open>entries\<close>
  array nor a \<^verbatim>\<open>history\<close> array comes back as it is.
\<close>

lemma classifier_passes_unrecognized:
  assumes "\<not> isArray content" and "content \<noteq> JNull"
    and "\<forall>a. get_prop content ''entries'' \<noteq> Some (JArr a)"
    and "\<forall>h. get_prop content ''history'' \<noteq> Some (JArr h)"
  shows "processOpenHandsTrajectory content = Inr content"
proof -
  have g: "js_get content k = Inr (get_prop content k)" for k
    using assms(2) by (cases content) simp_all
  have e: "\<not> (case get_prop content ''entries'' of Some a \<Rightarrow> isArray a | None \<Rightarrow> False)"
    using assms(3) by (auto split: option.splits elim: isArray.elims)
  have h: "get_prop content ''history'' = Some v \<Longrightarrow> \<not> isArray v" for v
    using assms(4) by (auto elim: isArray.elims)
  show ?thesis
    using assms(1) e h by (simp add: processOpenHandsTrajectory_def g split: option.splits)
qed

text \<open>
  Claim C4. The classifier is to return every array unchanged, whatever its first
  element. The code tests the first element with the \<^verbatim>\<open>in\<close> operator, which throws on a
  number, a string, a boolean and \<^verbatim>\<open>null\<close>: the array \<^verbatim>\<open>[1]\<close> is not returned, the
  classifier throws a TypeError, and the upload of the file \<^verbatim>\<open>[1]\<close> ends in the parse
  failure report instead of a delivery. The other three parts of the claim hold
  (\<open>classifier_array_identity\<close>, \<open>classifier_entries_whole\<close>,
  \<open>classifier_history_unwrap\<close>).
\<close>

theorem classifier_throws_on_primitive_first:
  "processOpenHandsTrajectory (JArr [JNum 1])
     = Inl (TypeError ''Cannot use in operator to search for action'')
   \<and> reader_onload sample_parse ''[1]'' (initial_upload_state\<lparr>isProcessing := True\<rparr>)
     = \<lparr>isProcessing = False,
        error = Some (parse_error_text
                        (TypeError ''Cannot use in operator to search for action'')),
        effects = [Alert parse_alert], readers = [], timers = []\<rparr>"
  by (simp add: processOpenHandsTrajectory_def both_in_def reader_onload_def onload_try_def
      sample_parse_def log_parsed_def initial_upload_state_def)

text \<open>
  Claim C7. A parsed value of no recognized shape, JSON \<^verbatim>\<open>null\<close> included, is to come back
  unchanged without an exception. On \<^verbatim>\<open>null\<close> the classifier throws a TypeError at
  \<^verbatim>\<open>content.entries\<close>, and in the upload the logging call \<^verbatim>\<open>Object.keys(content)\<close> throws
  before the classifier is reached, so the file \<^verbatim>\<open>null\<close> ends in the parse failure
  report. Every other such value does come back unchanged
  (\<open>classifier_passes_unrecognized\<close>).
\<close>

theorem classifier_throws_on_null:
  "processOpenHandsTrajectory JNull
     = Inl (TypeError ''Cannot read properties of null (reading entries)'')
   \<and> reader_onload sample_parse ''null'' (initial_upload_state\<lparr>isProcessing := True\<rparr>)
     = \<lparr>isProcessing = False,
        error = Some (parse_error_text
                        (TypeError ''Cannot convert undefined or null to object'')),
        effects = [Alert parse_alert], readers = [], timers = []\<rparr>"
  by (simp add: processOpenHandsTrajectory_def reader_onload_def onload_try_def
      sample_parse_def log_parsed_def initial_upload_state_def)

section \<open>Properties of the upload\<close>

text \<open>
  Claim C10. A drop with no accepted file changes nothing: the state, the effects (so
  neither callback is invoked), the readers and the timers are as before.
\<close>

theorem onDrop_empty_is_noop: "onDrop onUploadStart [] s = s"
  by (simp add: onDrop_def)

text \<open>
  Claim C1, as stated, fails: the message set for a file that is not JSON need not
  contain the file's name. For the file \<^verbatim>\<open>run42.json\<close> with the text \<^verbatim>\<open>not json\<close> the
  inline message is the fixed prefix, the parser's message and the fixed suffix, and
  the name does not occur in it.
\<close>

theorem parse_failure_names_file_counterexample:
  "error (reader_done sample_parse
            (onDrop True
               [\<lparr>file_name = ''run42.json'', file_size = 8, file_read = ReadText ''not json''\<rparr>]
               initial_upload_state))
     = Some ''Failed to parse the trajectory file: Unexpected token o in JSON at position 1. Please make sure it is a valid JSON file.''
   \<and> \<not> sublist ''run42.json''
         ''Failed to parse the trajectory file: Unexpected token o in JSON at position 1. Please make sure it is a valid JSON file.''"
  apply (rule conjI)
   apply (simp add: reader_done_def onDrop_def initial_upload_state_def reader_onload_def
      onload_try_def sample_parse_def parse_error_text_def)
  apply code_simp
  done

text \<open>
  Claim C1, amended. When the text of the file is not valid JSON, \<^verbatim>\<open>reader.onload\<close>
  sets the inline error to the fixed prefix, the parser's message and the fixed suffix,
  so the message contains the parser's message; it raises the alert with its fixed
  sentence, clears the busy flag, invokes no upload callback and schedules no delivery.
  The code adds no file name: the state after the whole upload is built from the state
  before, the optional start callback and the parser's message, and from nothing of
  the file but its text.
\<close>

theorem parse_failure_reported:
  assumes "JSON_parse result = Inl (SyntaxError msg)"
  shows "reader_onload JSON_parse result s =
           s\<lparr>error := Some (''Failed to parse the trajectory file: '' @ msg
                             @ ''. Please make sure it is a valid JSON file.''),
             effects := effects s @ [Alert parse_alert],
             isProcessing := False\<rparr>
         \<and> (\<exists>m. error (reader_onload JSON_parse result s) = Some m \<and> sublist msg m)
         \<and> filter is_upload (effects (reader_onload JSON_parse result s))
             = filter is_upload (effects s)
         \<and> timers (reader_onload JSON_parse result s) = timers s
         \<and> (file_read f = ReadText result \<and> readers s = [] \<longrightarrow>
              reader_done JSON_parse (onDrop onUploadStart (f # fs) s) =
                s\<lparr>isProcessing := False,
                  error := Some (''Failed to parse the trajectory file: '' @ msg
                                  @ ''. Please make sure it is a valid JSON file.''),
                  effects := effects s @ (if onUploadStart then [OnUploadStart] else [])
                    @ [Alert ''Failed to parse the trajectory file. Please make sure it is a valid JSON file.''],
                  readers := []\<rparr>)"
proof -
  have run: "reader_onload JSON_parse result t =
           t\<lparr>error := Some (parse_error_text (SyntaxError msg)),
             effects := effects t @ [Alert parse_alert],
             isProcessing := False\<rparr>" for t
    using assms by (simp add: reader_onload_def onload_try_def)
  have shape: "parse_error_text (SyntaxError msg) =
       ''Failed to parse the trajectory file: '' @ msg
         @ ''. Please make sure it is a valid JSON file.''"
    by (simp add: parse_error_text_def)
  have sub: "sublist msg (parse_error_text (SyntaxError msg))"
    unfolding parse_error_text_def message.simps by (rule sublist_appendI)
  have whole: "reader_done JSON_parse (onDrop onUploadStart (f # fs) s) =
                s\<lparr>isProcessing := False,
                  error := Some (parse_error_text (SyntaxError msg)),
                  effects := effects s @ (if onUploadStart then [OnUploadStart] else [])
                    @ [Alert parse_alert],
                  readers := []\<rparr>"
    if "file_read f = ReadText result" and "readers s = []"
    using that by (simp add: reader_done_def onDrop_def Let_def run)
  have first: "reader_onload JSON_parse result s =
           s\<lparr>error := Some (''Failed to parse the trajectory file: '' @ msg
                             @ ''. Please make sure it is a valid JSON file.''),
             effects := effects s @ [Alert parse_alert],
             isProcessing := False\<rparr>
         \<and> (\<exists>m. error (reader_onload JSON_parse result s) = Some m \<and> sublist msg m)
         \<and> filter is_upload (effects (reader_onload JSON_parse result s))
             = filter is_upload (effects s)
         \<and> timers (reader_onload JSON_parse result s) = timers s"
    unfolding run shape[symmetric] using sub by simp
  have last: "file_read f = ReadText result \<and> readers s = [] \<longrightarrow>
              reader_done JSON_parse (onDrop onUploadStart (f # fs) s) =
                s\<lparr>isProcessing := False,
                  error := Some (''Failed to parse the trajectory file: '' @ msg
                                  @ ''. Please make sure it is a valid JSON file.''),
                  effects := effects s @ (if onUploadStart then [OnUploadStart] else [])
                    @ [Alert ''Failed to parse the trajectory file. Please make sure it is a valid JSON file.''],
                  readers := []\<rparr>"
    using whole by (simp add: shape parse_alert_def)
  from first last show ?thesis by blast
qed

text \<open>
  The amended claim at the file \<^verbatim>\<open>run42.json\<close> with the text \<^verbatim>\<open>not json\<close>, dropped
  on the idle component.
\<close>

theorem parse_failure_reported_witness:
  "sample_parse ''not json'' = Inl (SyntaxError ''Unexpected token o in JSON at position 1'')
   \<and> file_read \<lparr>file_name = ''run42.json'', file_size = 8, file_read = ReadText ''not json''\<rparr>
       = ReadText ''not json''
   \<and> readers initial_upload_state = []
   \<and> reader_onload sample_parse ''not json''
        (initial_upload_state\<lparr>isProcessing := True\<rparr>)
      = \<lparr>isProcessing = False,
         error = Some ''Failed to parse the trajectory file: Unexpected token o in JSON at position 1. Please make sure it is a valid JSON file.'',
         effects = [Alert parse_alert], readers = [], timers = []\<rparr>
   \<and> reader_done sample_parse
        (onDrop True
           [\<lparr>file_name = ''run42.json'', file_size = 8, file_read = ReadText ''not json''\<rparr>]
           initial_upload_state)
      = \<lparr>isProcessing = False,
         error = Some ''Failed to parse the trajectory file: Unexpected token o in JSON at position 1. Please make sure it is a valid JSON file.'',
         effects = [OnUploadStart,
                    Alert ''Failed to parse the trajectory file. Please make sure it is a valid JSON file.''],
         readers = [], timers = []\<rparr>"
proof -
  let ?f = "\<lparr>file_name = ''run42.json'', file_size = 8, file_read = ReadText ''not json''\<rparr>"
  have h: "sample_parse ''not json''
             = Inl (SyntaxError ''Unexpected token o in JSON at position 1'')"
    by (simp add: sample_parse_def)
  have r: "file_read ?f = ReadText ''not json''" "readers initial_upload_state = []"
    by (simp_all add: initial_upload_state_def)
  have a: "reader_onload sample_parse ''not json''
        (initial_upload_state\<lparr>isProcessing := True\<rparr>)
      = \<lparr>isProcessing = False,
         error = Some ''Failed to parse the trajectory file: Unexpected token o in JSON at position 1. Please make sure it is a valid JSON file.'',
         effects = [Alert parse_alert], readers = [], timers = []\<rparr>"
    using h parse_failure_reported
            [of sample_parse "''not json''" "''Unexpected token o in JSON at position 1''"
                "initial_upload_state\<lparr>isProcessing := True\<rparr>"]
    by (simp add: initial_upload_state_def)
  have b: "reader_done sample_parse (onDrop True [?f] initial_upload_state)
      = \<lparr>isProcessing = False,
         error = Some ''Failed to parse the trajectory file: Unexpected token o in JSON at position 1. Please make sure it is a valid JSON file.'',
         effects = [OnUploadStart,
                    Alert ''Failed to parse the trajectory file. Please make sure it is a valid JSON file.''],
         readers = [], timers = []\<rparr>"
    using h r parse_failure_reported
            [of sample_parse "''not json''" "''Unexpected token o in JSON at position 1''"
                initial_upload_state ?f True "[]"]
    by (simp add: initial_upload_state_def)
  from h r a b show ?thesis by blast
qed






section \<open>Properties of the list view\<close>

lemma has_in_object: "has_in k (JObj kvs) = Inr (map_of kvs k \<noteq> None)"
  by (simp add: map_of_eq_None_iff)

text \<open>
  Claim C2. On every item (an object; an array is accepted by \<^verbatim>\<open>in\<close> as well) the
  pre-filter answers without an exception, and it drops the item exactly when its
  \<^verbatim>\<open>action\<close> is \<^verbatim>\<open>"change_agent_state"\<close> or its \<^verbatim>\<open>observation\<close> is the string
  \<^verbatim>\<open>"null"\<close>. An item whose \<^verbatim>\<open>observation\<close> is JSON \<^verbatim>\<open>null\<close> is kept unless the
  \<^verbatim>\<open>action\<close> rule drops it.
\<close>

theorem prefilter_drops_exactly:
  "(is_object item \<longrightarrow>
      shouldDisplayItem item =
        Inr (\<not> (get_prop item ''action'' = Some (JStr ''change_agent_state'')
                \<or> get_prop item ''observation'' = Some (JStr ''null''))))
   \<and> (is_object item \<and> get_prop item ''observation'' = Some JNull \<longrightarrow>
        shouldDisplayItem item =
          Inr (get_prop item ''action'' \<noteq> Some (JStr ''change_agent_state'')))"
proof (cases item)
  case (JObj kvs)
  then show ?thesis
    unfolding shouldDisplayItem_def by (auto simp: has_in_object simp del: has_in.simps)
next
  case (JArr xs)
  then show ?thesis by (simp add: shouldDisplayItem_def)
qed simp_all

text \<open>The two items of the round trip: JSON \<^verbatim>\<open>null\<close> is kept, the string is dropped.\<close>

theorem prefilter_drops_exactly_witness:
  "is_object (JObj [(''observation'', JNull)])
   \<and> get_prop (JObj [(''observation'', JNull)]) ''observation'' = Some JNull
   \<and> shouldDisplayItem (JObj [(''observation'', JNull)]) = Inr True
   \<and> is_object (JObj [(''observation'', JStr ''null'')])
   \<and> shouldDisplayItem (JObj [(''observation'', JStr ''null'')]) = Inr False"
  using prefilter_drops_exactly [of "JObj [(''observation'', JNull)]"]
        prefilter_drops_exactly [of "JObj [(''observation'', JStr ''null'')]"]
  by simp

text \<open>
  Claim C5. Whatever the thirteen guards are, the dispatcher hands an item to exactly
  the component of the first guard that holds, in the order AgentStateChange,
  UserMessage, AssistantMessage, CommandAction, CommandObservation, IPythonAction,
  IPythonObservation, FinishAction, ErrorObservation, ReadAction, ReadObservation,
  EditAction, EditObservation, and to the raw JSON card when none holds.
\<close>

theorem dispatcher_priority_order:
  "(selectRenderer g item = AgentStateChangeComponent \<longleftrightarrow> isAgentStateChange g item)
 \<and> (selectRenderer g item = UserMessageComponent \<longleftrightarrow>
      \<not> isAgentStateChange g item \<and> isUserMessage g item)
 \<and> (selectRenderer g item = AssistantMessageComponent \<longleftrightarrow>
      \<not> isAgentStateChange g item \<and> \<not> isUserMessage g item \<and> isAssistantMessage g item)
 \<and> (selectRenderer g item = CommandActionComponent \<longleftrightarrow>
      \<not> isAgentStateChange g item \<and> \<not> isUserMessage g item \<and> \<not> isAssistantMessage g item
      \<and> isCommandAction g item)
 \<and> (selectRenderer g item = CommandObservationComponent \<longleftrightarrow>
      \<not> isAgentStateChange g item \<and> \<not> isUserMessage g item \<and> \<not> isAssistantMessage g item
      \<and> \<not> isCommandAction g item \<and> isCommandObservation g item)
 \<and> (selectRenderer g item = IPythonActionComponent \<longleftrightarrow>
      \<not> isAgentStateChange g item \<and> \<not> isUserMessage g item \<and> \<not> isAssistantMessage g item
      \<and> \<not> isCommandAction g item \<and> \<not> isCommandObservation g item \<and> isIPythonAction g item)
 \<and> (selectRenderer g item = IPythonObservationComponent \<longleftrightarrow>
      \<not> isAgentStateChange g item \<and> \<not> isUserMessage g item \<and> \<not> isAssistantMessage g item
      \<and> \<not> isCommandAction g item \<and> \<not> isCommandObservation g item \<and> \<not> isIPythonAction g item
      \<and> isIPythonObservation g item)
 \<and> (selectRenderer g item = FinishActionComponent \<longleftrightarrow>
      \<not> isAgentStateChange g item \<and> \<not> isUserMessage g item \<and> \<not> isAssistantMessage g item
      \<and> \<not> isCommandAction g item \<and> \<not> isCommandObservation g item \<and> \<not> isIPythonAction g item
      \<and> \<not> isIPythonObservation g item \<and> isFinishAction g item)
 \<and> (selectRenderer g item = ErrorObservationComponent \<longleftrightarrow>
      \<not> isAgentStateChange g item \<and> \<not> isUserMessage g item \<and> \<not> isAssistantMessage g item
      \<and> \<not> isCommandAction g item \<and> \<not> isCommandObservation g item \<and> \<not> isIPythonAction g item
      \<and> \<not> isIPythonObservation g item \<and> \<not> isFinishAction g item \<and> isErrorObservation g item)
 \<and> (selectRenderer g item = ReadActionComponent \<longleftrightarrow>
      \<not> isAgentStateChange g item \<and> \<not> isUserMessage g item \<and> \<not> isAssistantMessage g item
      \<and> \<not> isCommandAction g item \<and> \<not> isCommandObservation g item \<and> \<not> isIPythonAction g item
      \<and> \<not> isIPythonObservation g item \<and> \<not> isFinishAction g item
      \<and> \<not> isErrorObservation g item \<and> isReadAction g item)
 \<and> (selectRenderer g item = ReadObservationComponent \<longleftrightarrow>
      \<not> isAgentStateChange g item \<and> \<not> isUserMessage g item \<and> \<not> isAssistantMessage g item
      \<and> \<not> isCommandAction g item \<and> \<not> isCommandObservation g item \<and> \<not> isIPythonAction g item
      \<and> \<not> isIPythonObservation g item \<and> \<not> isFinishAction g item
      \<and> \<not> isErrorObservation g item \<and> \<not> isReadAction g item \<and> isReadObservation g item)
 \<and> (selectRenderer g item = EditActionComponent \<longleftrightarrow>
      \<not> isAgentStateChange g item \<and> \<not> isUserMessage g item \<and> \<not> isAssistantMessage g item
      \<and> \<not> isCommandAction g item \<and> \<not> isCommandObservation g item \<and> \<not> isIPythonAction g item
      \<and> \<not> isIPythonObservation g item \<and> \<not> isFinishAction g item
      \<and> \<not> isErrorObservation g item \<and> \<not> isReadAction g item \<and> \<not> isReadObservation g item
      \<and> isEditAction g item)
 \<and> (selectRenderer g item = EditObservationComponent \<longleftrightarrow>
      \<not> isAgentStateChange g item \<and> \<not> isUserMessage g item \<and> \<not> isAssistantMessage g item
      \<and> \<not> isCommandAction g item \<and> \<not> isCommandObservation g item \<and> \<not> isIPythonAction g item
      \<and> \<not> isIPythonObservation g item \<and> \<not> isFinishAction g item
      \<and> \<not> isErrorObservation g item \<and> \<not> isReadAction g item \<and> \<not> isReadObservation g item
      \<and> \<not> isEditAction g item \<and> isEditObservation g item)
 \<and> (selectRenderer g item = TrajectoryCard \<longleftrightarrow>
      \<not> isAgentStateChange g item \<and> \<not> isUserMessage g item \<and> \<not> isAssistantMessage g item
      \<and> \<not> isCommandAction g item \<and> \<not> isCommandObservation g item \<and> \<not> isIPythonAction g item
      \<and> \<not> isIPythonObservation g item \<and> \<not> isFinishAction g item
      \<and> \<not> isErrorObservation g item \<and> \<not> isReadAction g item \<and> \<not> isReadObservation g item
      \<and> \<not> isEditAction g item \<and> \<not> isEditObservation g item)"
  by (simp add: selectRenderer_def)

text \<open>
  With the guards as the spec words them, an item that is both a user message and a
  command action goes to the user message component, the earlier of the two.
\<close>

theorem dispatcher_priority_order_witness:
  "isUserMessage spec_guards (JObj [(''action'', JStr ''run''), (''role'', JStr ''user'')])
   \<and> isCommandAction spec_guards (JObj [(''action'', JStr ''run''), (''role'', JStr ''user'')])
   \<and> selectRenderer spec_guards (JObj [(''action'', JStr ''run''), (''role'', JStr ''user'')])
       = UserMessageComponent"
proof -
  have a: "\<not> isAgentStateChange spec_guards
               (JObj [(''action'', JStr ''run''), (''role'', JStr ''user'')])"
    and u: "isUserMessage spec_guards
               (JObj [(''action'', JStr ''run''), (''role'', JStr ''user'')])"
    and c: "isCommandAction spec_guards
               (JObj [(''action'', JStr ''run''), (''role'', JStr ''user'')])"
    by (simp_all add: spec_guards_def field_is_def)
  from dispatcher_priority_order
         [of spec_guards "JObj [(''action'', JStr ''run''), (''role'', JStr ''user'')]"] a u
  have "selectRenderer spec_guards
          (JObj [(''action'', JStr ''run''), (''role'', JStr ''user'')]) = UserMessageComponent"
    by blast
  with u c show ?thesis by blast
qed

lemma shouldDisplayItem_object: "is_object item \<Longrightarrow> \<exists>b. shouldDisplayItem item = Inr b"
  by (cases item) (auto simp: shouldDisplayItem_def)

lemma filter_items_result:
  "filter_items items = Inr kept \<Longrightarrow>
     kept = filter (\<lambda>item. shouldDisplayItem item = Inr True) items"
proof (induction items arbitrary: kept)
  case Nil
  then show ?case by simp
next
  case (Cons item items)
  then show ?case
    by (auto split: sum.splits if_splits)
qed

lemma filter_items_objects:
  "\<forall>item \<in> set items. is_object item \<Longrightarrow> \<exists>kept. filter_items items = Inr kept"
proof (induction items)
  case Nil
  then show ?case by simp
next
  case (Cons item items)
  then obtain kept where k: "filter_items items = Inr kept" by auto
  from Cons.prems obtain b where b: "shouldDisplayItem item = Inr b"
    using shouldDisplayItem_object by auto
  show ?case by (simp add: k b)
qed

text \<open>
  Claim C6. Whenever the list view renders, the count in its header is the number of
  items the pre-filter keeps, which is the number of entries shown and at most the
  length of the input; it does render for every sequence of objects. For the sequence
  of a \<^verbatim>\<open>run\<close> action and a \<^verbatim>\<open>change_agent_state\<close> action the header reads 1.
\<close>

theorem label_is_post_filter_count:
  "(TrajectoryList g trajectory = Inr v \<longrightarrow>
      items_label v = length (filter (\<lambda>item. shouldDisplayItem item = Inr True) trajectory)
      \<and> items_label v = length (entries v)
      \<and> items_label v \<le> length trajectory)
   \<and> ((\<forall>item \<in> set trajectory. is_object item) \<longrightarrow>
        (\<exists>w. TrajectoryList g trajectory = Inr w))
   \<and> TrajectoryList g
        [JObj [(''action'', JStr ''run''), (''args'', JObj [(''command'', JStr ''ls'')])],
         JObj [(''action'', JStr ''change_agent_state'')]]
      = Inr \<lparr>items_label = 1,
             entries = [\<lparr>component =
                           selectRenderer g
                             (JObj [(''action'', JStr ''run''),
                                    (''args'', JObj [(''command'', JStr ''ls'')])]),
                         entry_key = 0,
                         entry_item =
                           JObj [(''action'', JStr ''run''),
                                 (''args'', JObj [(''command'', JStr ''ls'')])]\<rparr>],
             empty_line = False\<rparr>"
proof (intro conjI impI)
  assume a: "TrajectoryList g trajectory = Inr v"
  then obtain kept where k: "filter_items trajectory = Inr kept"
    by (auto simp: TrajectoryList_def split: sum.splits)
  have v: "items_label v = length kept" "length (entries v) = length kept"
    using a k by (auto simp: TrajectoryList_def)
  have f: "kept = filter (\<lambda>item. shouldDisplayItem item = Inr True) trajectory"
    using k by (rule filter_items_result)
  show "items_label v = length (filter (\<lambda>item. shouldDisplayItem item = Inr True) trajectory)"
    using v f by simp
  show "items_label v = length (entries v)" using v by simp
  show "items_label v \<le> length trajectory" using v f by simp
next
  assume "\<forall>item \<in> set trajectory. is_object item"
  then obtain kept where "filter_items trajectory = Inr kept"
    using filter_items_objects by blast
  then show "\<exists>w. TrajectoryList g trajectory = Inr w"
    by (simp add: TrajectoryList_def)
next
  show "TrajectoryList g
        [JObj [(''action'', JStr ''run''), (''args'', JObj [(''command'', JStr ''ls'')])],
         JObj [(''action'', JStr ''change_agent_state'')]]
      = Inr \<lparr>items_label = 1,
             entries = [\<lparr>component =
                           selectRenderer g
                             (JObj [(''action'', JStr ''run''),
                                    (''args'', JObj [(''command'', JStr ''ls'')])]),
                         entry_key = 0,
                         entry_item =
                           JObj [(''action'', JStr ''run''),
                                 (''args'', JObj [(''command'', JStr ''ls'')])]\<rparr>],
             empty_line = False\<rparr>"
    by (simp add: TrajectoryList_def shouldDisplayItem_def)
qed

text \<open>The header count for a \<^verbatim>\<open>run\<close> action followed by a \<^verbatim>\<open>"null"\<close> observation.\<close>

theorem label_is_post_filter_count_witness:
  "is_object (JObj [(''action'', JStr ''run'')])
   \<and> is_object (JObj [(''observation'', JStr ''null'')])
   \<and> (\<exists>w. TrajectoryList spec_guards
              [JObj [(''action'', JStr ''run'')], JObj [(''observation'', JStr ''null'')]] = Inr w
          \<and> items_label w = 1)"
proof -
  let ?t = "[JObj [(''action'', JStr ''run'')], JObj [(''observation'', JStr ''null'')]]"
  have obj: "\<forall>item \<in> set ?t. is_object item" by simp
  from label_is_post_filter_count [of spec_guards ?t] obj
  obtain w where w: "TrajectoryList spec_guards ?t = Inr w" by blast
  from label_is_post_filter_count [of spec_guards ?t w] w
  have "items_label w = length (filter (\<lambda>item. shouldDisplayItem item = Inr True) ?t)"
    by blast
  then have "items_label w = 1" by (simp add: shouldDisplayItem_def)
  with w show ?thesis by simp
qed

section \<open>Properties of the run view\<close>

text \<open>
  Claim C8, as stated, fails: for the envelope \<^verbatim>\<open>{content: {}}\<close>, in which none of
  \<^verbatim>\<open>metrics\<close>, \<^verbatim>\<open>history\<close>, \<^verbatim>\<open>jsonlHistory\<close> and \<^verbatim>\<open>issue\<close> is present, the generic view
  shows the ``Artifact Data'' section and no empty-state line.
\<close>

theorem empty_state_counterexample:
  "RunDetails spec_guards
     \<lparr>runDetails = JObj [(''run'', JObj [])],
      artifactContent = JObj [(''content'', JObj [])],
      loading = False, contentLoading = False, processingArtifact = False,
      load_error = None, api_calls = []\<rparr>
   = Inr (GenericScreen
           \<lparr>artifact_details = True, history_dump = None, jsonl_history_dump = None,
            no_content_line = False\<rparr>)"
  by (simp add: RunDetails_def generic_details_def raw_dump_def)

lemma raw_dump_shown: "raw_dump field \<noteq> None \<longleftrightarrow> truthy field"
  by (cases field) (simp_all add: raw_dump_def)

lemma raw_dump_array:
  "raw_dump (Some (JArr xs)) = Some (Some (JNum (of_nat (length xs))), JArr xs)"
  by (simp add: raw_dump_def)

text \<open>
  Claim C8, amended. A settled state whose content matches neither the jsonl nor the
  trajectory branch renders the generic view. In it the ``Artifact Data'' section is
  there exactly when the content is truthy and its \<^verbatim>\<open>metrics\<close> is truthy or its
  \<^verbatim>\<open>issue\<close> is not; the dump of \<^verbatim>\<open>history\<close> and the dump of \<^verbatim>\<open>jsonlHistory\<close> are each
  there exactly when the field is truthy, headed by the element count when the field is
  an array; and the empty-state line is there exactly when the content itself is
  missing or falsy.
\<close>

theorem generic_view_sections:
  assumes "\<not> loading s" and "\<not> contentLoading s" and "\<not> processingArtifact s"
    and "load_error s = None" and "truthy (Some (runDetails s))"
    and "content = opt_get (Some (artifactContent s)) ''content''"
    and "\<not> (opt_get content ''fileType'' = Some (JStr ''jsonl'')
            \<and> truthy (opt_get content ''jsonlContent''))"
    and "\<not> (opt_get content ''fileType'' = Some (JStr ''trajectory'')
            \<and> truthy (opt_get content ''trajectoryData''))"
  shows "\<exists>v. RunDetails g s = Inr (GenericScreen v)
     \<and> (artifact_details v \<longleftrightarrow>
          truthy content
          \<and> (truthy (opt_get content ''metrics'') \<or> \<not> truthy (opt_get content ''issue'')))
     \<and> (history_dump v \<noteq> None \<longleftrightarrow> truthy (opt_get content ''history''))
     \<and> (\<forall>xs. opt_get content ''history'' = Some (JArr xs) \<longrightarrow>
           history_dump v = Some (Some (JNum (of_nat (length xs))), JArr xs))
     \<and> (jsonl_history_dump v \<noteq> None \<longleftrightarrow> truthy (opt_get content ''jsonlHistory''))
     \<and> (\<forall>xs. opt_get content ''jsonlHistory'' = Some (JArr xs) \<longrightarrow>
           jsonl_history_dump v = Some (Some (JNum (of_nat (length xs))), JArr xs))
     \<and> (no_content_line v \<longleftrightarrow> \<not> truthy content)"
proof -
  have r: "RunDetails g s = Inr (GenericScreen (generic_details content))"
    using assms by (auto simp: RunDetails_def Let_def)
  show ?thesis
    unfolding r
    by (rule exI [of _ "generic_details content"])
       (auto simp: generic_details_def raw_dump_shown raw_dump_array simp del: not_None_eq)
qed

text \<open>
  The generic view of an envelope with an \<^verbatim>\<open>issue\<close> and a \<^verbatim>\<open>history\<close> of two entries:
  no ``Artifact Data'' section, the history dump headed by 2, no empty-state line.
\<close>

theorem generic_view_sections_witness:
  "\<exists>v. RunDetails spec_guards
          \<lparr>runDetails = JObj [(''run'', JObj [])],
           artifactContent =
             JObj [(''content'',
                    JObj [(''issue'', JStr ''flaky test''),
                          (''history'', JArr [JObj [], JObj []])])],
           loading = False, contentLoading = False, processingArtifact = False,
           load_error = None, api_calls = []\<rparr>
        = Inr (GenericScreen v)
      \<and> \<not> artifact_details v
      \<and> history_dump v = Some (Some (JNum 2), JArr [JObj [], JObj []])
      \<and> \<not> no_content_line v"
proof -
  let ?c = "JObj [(''issue'', JStr ''flaky test''), (''history'', JArr [JObj [], JObj []])]"
  let ?s = "\<lparr>runDetails = JObj [(''run'', JObj [])],
             artifactContent = JObj [(''content'', ?c)],
             loading = False, contentLoading = False, processingArtifact = False,
             load_error = None, api_calls = []\<rparr>"
  have c: "Some ?c = opt_get (Some (artifactContent ?s)) ''content''" by simp
  from generic_view_sections [of ?s "Some ?c" spec_guards, OF _ _ _ _ _ c]
  obtain v where v: "RunDetails spec_guards ?s = Inr (GenericScreen v)"
    and a: "artifact_details v \<longleftrightarrow>
              truthy (Some ?c)
              \<and> (truthy (opt_get (Some ?c) ''metrics'') \<or> \<not> truthy (opt_get (Some ?c) ''issue''))"
    and h: "\<forall>xs. opt_get (Some ?c) ''history'' = Some (JArr xs) \<longrightarrow>
              history_dump v = Some (Some (JNum (of_nat (length xs))), JArr xs)"
    and n: "no_content_line v \<longleftrightarrow> \<not> truthy (Some ?c)"
    by auto
  have "\<not> artifact_details v" using a by simp
  moreover have "history_dump v = Some (Some (JNum 2), JArr [JObj [], JObj []])"
    using h by simp
  moreover have "\<not> no_content_line v" using n by simp
  ultimately show ?thesis using v by blast
qed

lemma handleArtifactSelect_calls:
  "api_calls (handleArtifactSelect ToNumber client ownr rpo (Some (JObj akvs)) s)
     = api_calls s @ [GetArtifactContent ownr rpo (map_of akvs ''id'')]"
  by (simp add: handleArtifactSelect_def Let_def split: sum.splits)

lemma get_prop_Some_object:
  "get_prop v k = Some (JObj x) \<Longrightarrow> \<exists>kvs. v = JObj kvs"
  by (cases v) (auto split: if_splits)

lemma get_prop_Some_array:
  "get_prop v k = Some (JArr x) \<Longrightarrow> \<exists>kvs. v = JObj kvs"
  by (cases v) (auto split: if_splits)

text \<open>
  Claim C9. The effect runs with an owner, a repository and a run, and without initial
  content, so it fetches the run details. When the details hold exactly one artifact
  and the run's \<^verbatim>\<open>conclusion\<close> is \<^verbatim>\<open>"success"\<close>, the calls made are \<^verbatim>\<open>getRunDetails\<close> for
  the run followed by \<^verbatim>\<open>getArtifactContent\<close> for that artifact's \<^verbatim>\<open>id\<close>, with no event in
  between.
\<close>

theorem single_artifact_auto_select:
  assumes "owner p \<noteq> []" and "repo p \<noteq> []" and "truthy (Some (run p))"
    and "\<not> truthy (initialContent p)"
    and "getRunDetails client (owner p) (repo p) (get_prop (run p) ''id'') = Inr details"
    and "get_prop details ''artifacts'' = Some page"
    and "get_prop page ''artifacts'' = Some (JArr [JObj artifact])"
    and "get_prop (run p) ''conclusion'' = Some (JStr ''success'')"
  shows "api_calls (fetchRunDetails ToNumber client p s)
           = api_calls s
             @ [GetRunDetails (owner p) (repo p) (get_prop (run p) ''id''),
                GetArtifactContent (owner p) (repo p) (map_of artifact ''id'')]"
proof -
  obtain pkvs where page: "page = JObj pkvs"
    using get_prop_Some_array [OF assms(7)] by blast
  obtain dkvs where details: "details = JObj dkvs"
    using assms(6) get_prop_Some_object [of details "''artifacts''" pkvs] page by blast
  let ?s1 = "s\<lparr>loading := True, processingArtifact := False\<rparr>"
  let ?s3 = "?s1\<lparr>api_calls := api_calls ?s1
                  @ [GetRunDetails (owner p) (repo p) (get_prop (run p) ''id'')],
                runDetails := details, artifactContent := JNull\<rparr>"
  have t: "fetch_try ToNumber client p ?s1
             = (None, handleArtifactSelect ToNumber client (owner p) (repo p)
                        (Some (JObj artifact)) ?s3)"
    using assms(4-8) unfolding details page
    by (simp add: fetch_try_def Let_def)
  show ?thesis
    using assms(1-3)
    by (simp add: fetchRunDetails_def Let_def t handleArtifactSelect_calls)
qed

text \<open>A successful run 7 of \<^verbatim>\<open>acme/viewer\<close> whose details list the one artifact 31.\<close>

theorem single_artifact_auto_select_witness:
  "api_calls
     (fetchRunDetails (\<lambda>v. None)
        \<lparr>getRunDetails =
           (\<lambda>ownr rpo run_id.
              Inr (JObj [(''run'', JObj [(''id'', JNum 7)]),
                         (''artifacts'',
                          JObj [(''total_count'', JNum 1),
                                (''artifacts'',
                                 JArr [JObj [(''id'', JNum 31),
                                             (''name'', JStr ''trajectory'')]])])])),
         getArtifactContent =
           (\<lambda>ownr rpo artifact_id. Inr (JObj [(''content'', JObj [])]))\<rparr>
        \<lparr>owner = ''acme'', repo = ''viewer'',
         run = JObj [(''id'', JNum 7), (''conclusion'', JStr ''success'')],
         initialContent = None\<rparr>
        initial_run_state)
   = [GetRunDetails ''acme'' ''viewer'' (Some (JNum 7)),
      GetArtifactContent ''acme'' ''viewer'' (Some (JNum 31))]"
proof -
  let ?art = "[(''id'', JNum 31), (''name'', JStr ''trajectory'')]"
  let ?page = "JObj [(''total_count'', JNum 1), (''artifacts'', JArr [JObj ?art])]"
  let ?details = "JObj [(''run'', JObj [(''id'', JNum 7)]), (''artifacts'', ?page)]"
  let ?client = "\<lparr>getRunDetails = (\<lambda>ownr rpo run_id. Inr ?details),
                  getArtifactContent =
                    (\<lambda>ownr rpo artifact_id. Inr (JObj [(''content'', JObj [])]))\<rparr>"
  let ?p = "\<lparr>owner = ''acme'', repo = ''viewer'',
             run = JObj [(''id'', JNum 7), (''conclusion'', JStr ''success'')],
             initialContent = None\<rparr>"
  have h1: "owner ?p \<noteq> []" and h2: "repo ?p \<noteq> []" and h3: "truthy (Some (run ?p))"
    and h4: "\<not> truthy (initialContent ?p)"
    and h5: "getRunDetails ?client (owner ?p) (repo ?p) (get_prop (run ?p) ''id'')
               = Inr ?details"
    and h6: "get_prop ?details ''artifacts'' = Some ?page"
    and h7: "get_prop ?page ''artifacts'' = Some (JArr [JObj ?art])"
    and h8: "get_prop (run ?p) ''conclusion'' = Some (JStr ''success'')"
    by simp_all
  show ?thesis
    using single_artifact_auto_select
            [of ?p ?client ?details ?page ?art "\<lambda>v. None" initial_run_state,
             OF h1 h2 h3 h4 h5 h6 h7 h8]
    by (simp add: initial_run_state_def)
qed

end
